theory Spec2Isabelle
  imports Complex_Main "HOL-Library.Log_Nat" "HOL-Library.Word"
begin

section \<open>Go and C integers\<close>

text \<open>
  A Go \<open>int\<close> is a 64-bit two's complement integer; it is modelled as an \<open>int\<close>
  with the wrap-around written out. \<open>C.int\<close> is 32 bits signed, \<open>C.uint\<close> 32 bits
  unsigned and \<open>C.size_t\<close> 64 bits unsigned.
\<close>

definition go_int :: "int \<Rightarrow> int" where
  "go_int x = (x + 2 ^ 63) mod 2 ^ 64 - 2 ^ 63"

definition C_int :: "int \<Rightarrow> int" where
  "C_int x = (x + 2 ^ 31) mod 2 ^ 32 - 2 ^ 31"

definition C_uint :: "int \<Rightarrow> nat" where
  "C_uint x = nat (x mod 2 ^ 32)"

definition C_size_t :: "int \<Rightarrow> nat" where
  "C_size_t x = nat (x mod 2 ^ 64)"

text \<open>Go's \<open>/\<close> on integers truncates towards zero; \<open>*\<close> wraps.\<close>

definition go_div :: "int \<Rightarrow> int \<Rightarrow> int" where
  "go_div a b = go_int (sgn a * sgn b * (\<bar>a\<bar> div \<bar>b\<bar>))"

definition go_mul :: "int \<Rightarrow> int \<Rightarrow> int" where
  "go_mul a b = go_int (a * b)"

section \<open>IEEE 754 binary64, as far as \<open>Write\<close> uses it\<close>

text \<open>
  A \<open>float64\<close> is a sign and a magnitude (a non-negative real that has a 53-bit
  significand and an exponent in the binary64 range), an infinity with its sign, or
  a NaN. Every operation computes the exact result and rounds it to the nearest
  representable value, ties to even.
\<close>

datatype float64 = Finite bool real | Infinity bool | NaN

definition pow2 :: "int \<Rightarrow> real" where
  "pow2 e = (if 0 \<le> e then 2 ^ nat e else 1 / 2 ^ nat (- e))"

text \<open>The exponent of a positive real: \<open>pow2 (ilog2 x) \<le> x < pow2 (ilog2 x + 1)\<close>.\<close>

definition ilog2 :: "real \<Rightarrow> int" where
  "ilog2 x = (if 1 \<le> x then bitlen \<lfloor>x\<rfloor> - 1 else - bitlen (\<lceil>1 / x\<rceil> - 1))"

text \<open>Round a non-negative real to the nearest integer, ties to even.\<close>

definition rne :: "real \<Rightarrow> int" where
  "rne y = (let n = \<lfloor>y\<rfloor>; f = y - of_int n in
     if f < 1 / 2 then n else if 1 / 2 < f then n + 1 else if even n then n else n + 1)"

text \<open>
  Round a non-negative magnitude to binary64: 53 significant bits, subnormals below
  \<open>pow2 (-1022)\<close> (the unit in the last place never goes below \<open>pow2 (-1074)\<close>),
  overflow to infinity.
\<close>

definition round64 :: "bool \<Rightarrow> real \<Rightarrow> float64" where
  "round64 s x =
     (if x = 0 then Finite s 0
      else let e = max (ilog2 x) (- 1022);
               u = pow2 (e - 52);
               v = of_int (rne (x / u)) * u
           in if pow2 1024 \<le> v then Infinity s else Finite s v)"

fun f64_div :: "float64 \<Rightarrow> float64 \<Rightarrow> float64" where
  "f64_div NaN y = NaN"
| "f64_div x NaN = NaN"
| "f64_div (Infinity s) (Infinity t) = NaN"
| "f64_div (Infinity s) (Finite t b) = Infinity (s \<noteq> t)"
| "f64_div (Finite s a) (Infinity t) = Finite (s \<noteq> t) 0"
| "f64_div (Finite s a) (Finite t b) =
     (if b = 0 then (if a = 0 then NaN else Infinity (s \<noteq> t))
      else round64 (s \<noteq> t) (a / b))"

fun f64_mul :: "float64 \<Rightarrow> float64 \<Rightarrow> float64" where
  "f64_mul NaN y = NaN"
| "f64_mul x NaN = NaN"
| "f64_mul (Infinity s) (Infinity t) = Infinity (s \<noteq> t)"
| "f64_mul (Infinity s) (Finite t b) = (if b = 0 then NaN else Infinity (s \<noteq> t))"
| "f64_mul (Finite s a) (Infinity t) = (if a = 0 then NaN else Infinity (s \<noteq> t))"
| "f64_mul (Finite s a) (Finite t b) = round64 (s \<noteq> t) (a * b)"

text \<open>The Go conversion \<open>float64(i)\<close> of an \<open>int\<close>.\<close>

definition f64_of_int :: "int \<Rightarrow> float64" where
  "f64_of_int i = round64 (i < 0) (of_int \<bar>i\<bar>)"

text \<open>The Go comparison \<open>x <= 0\<close>: false on a NaN.\<close>

fun f64_le_zero :: "float64 \<Rightarrow> bool" where
  "f64_le_zero NaN = False"
| "f64_le_zero (Infinity s) = s"
| "f64_le_zero (Finite s a) = (s \<or> a = 0)"

text \<open>
  The Go conversion \<open>int(x)\<close> of a \<open>float64\<close> drops the fraction (towards zero).
  Where the value does not fit an \<open>int\<close> (a NaN, an infinity, a magnitude of
  \<open>2 ^ 63\<close> or more) Go leaves the result to the implementation: it is the
  parameter \<open>impl\<close>.
\<close>

definition f64_to_int :: "(float64 \<Rightarrow> int) \<Rightarrow> float64 \<Rightarrow> int" where
  "f64_to_int impl x =
     (case x of
        Finite s a \<Rightarrow>
          (let t = (if s then - \<lfloor>a\<rfloor> else \<lfloor>a\<rfloor>)
           in if - (2 ^ 63) \<le> t \<and> t < 2 ^ 63 then t else go_int (impl x))
      | _ \<Rightarrow> go_int (impl x))"

text \<open>The real number a finite \<open>float64\<close> stands for (0 for an infinity and a NaN, which have none).\<close>

fun valof :: "float64 \<Rightarrow> real" where
  "valof (Finite s a) = (if s then - a else a)"
| "valof (Infinity s) = 0"
| "valof NaN = 0"

section \<open>The engine, the destination and the trace of calls\<close>

text \<open>
  \<open>libsoxr\<close> and the destination \<open>io.Writer\<close> are outside the package. Every call
  that reaches one of them is recorded, in order, as an event; what the call gives
  back is a function of the calls made so far and of the call itself, a field of the
  environment. A \<open>soxr_t\<close> and a writer are known by a number; \<open>None\<close> is the nil
  pointer, respectively the nil interface. The buffers that \<open>Write\<close> and \<open>flush\<close>
  allocate and free are not part of the model, except for the bytes the engine
  leaves in the output buffer.
\<close>

type_synonym byte = "8 word"
type_synonym handle = nat
type_synonym writer = nat

datatype event =
    SoxrCreate float64 float64 nat int int int nat
      \<comment> \<open>input rate, output rate, channels, input format, output format, quality, threads\<close>
  | SoxrProcess "handle option" "byte list option" nat nat
      \<comment> \<open>engine, input buffer (\<open>None\<close> is \<open>nil\<close>), input frames, output frame capacity\<close>
  | SoxrClear "handle option"
  | SoxrDelete "handle option"
  | DestWrite writer "byte list"

record env =
  threads :: nat
    \<comment> \<open>\<open>runtime.NumCPU()\<close>, read once by \<open>init\<close>\<close>
  soxr_create :: "event list \<Rightarrow> event \<Rightarrow> handle option \<times> string"
    \<comment> \<open>the engine and the message of \<open>soxErr\<close> (empty for a null pointer)\<close>
  soxr_process :: "event list \<Rightarrow> event \<Rightarrow> string \<times> nat \<times> (nat \<Rightarrow> byte)"
    \<comment> \<open>the message of \<open>soxErr\<close>, \<open>done\<close>, and the memory at \<open>dataOut\<close>\<close>
  dest_write :: "event list \<Rightarrow> event \<Rightarrow> string option"
    \<comment> \<open>the error of \<open>destination.Write\<close>; its byte count is discarded by the code\<close>
  float_to_int :: "float64 \<Rightarrow> int"
    \<comment> \<open>the implementation's \<open>int(x)\<close> on a value that does not fit\<close>

section \<open>The package\<close>

definition Quick :: int where "Quick = 0"
definition LowQ :: int where "LowQ = 1"
definition MediumQ :: int where "MediumQ = 2"
definition HighQ :: int where "HighQ = 4"
definition VeryHighQ :: int where "VeryHighQ = 6"

definition F32 :: int where "F32 = 0"
definition F64 :: int where "F64 = 1"
definition I32 :: int where "I32 = 2"
definition I16 :: int where "I16 = 3"

record Resampler =
  resampler :: "handle option"
  inRate :: float64
  outRate :: float64
  channels :: int
  inFrameSize :: int
  outFrameSize :: int
  destination :: "writer option"

text \<open>A call either returns or panics (a run-time panic of Go).\<close>

datatype 'a outcome = Panic | Return 'a

text \<open>The closure \<open>sizeOf\<close> of \<open>New\<close>.\<close>

definition sizeOf :: "int \<Rightarrow> string + int" where
  "sizeOf format =
     (if format = F64 then Inr 8
      else if format = F32 then Inr 4
      else if format = I32 then Inr 4
      else if format = I16 then Inr 2
      else Inl ''invalid format setting'')"

definition New ::
  "env \<Rightarrow> event list \<Rightarrow> writer option \<Rightarrow> float64 \<Rightarrow> float64 \<Rightarrow> int \<Rightarrow> int \<Rightarrow> int \<Rightarrow> int \<Rightarrow>
     (string + Resampler) \<times> event list" where
  "New E tr writer inputRate outputRate chans inFormat outFormat quality =
     (if writer = None then (Inl ''io.Writer is nil'', tr)
      else if f64_le_zero inputRate \<or> f64_le_zero outputRate
        then (Inl ''invalid input or output sampling rates'', tr)
      else if chans = 0 then (Inl ''invalid channels number'', tr)
      else if quality < 0 \<or> quality > 6 then (Inl ''invalid quality setting'', tr)
      else case sizeOf inFormat of
        Inl err \<Rightarrow> (Inl err, tr)
      | Inr inSize \<Rightarrow>
         (case sizeOf outFormat of
            Inl err \<Rightarrow> (Inl err, tr)
          | Inr outSize \<Rightarrow>
             (let ev = SoxrCreate inputRate outputRate (C_uint chans) inFormat outFormat
                         quality (threads E);
                  (soxr, soxErr) = soxr_create E tr ev
              in if soxErr \<noteq> '''' \<and> soxErr \<noteq> ''0'' then (Inl soxErr, tr @ [ev])
                 else (Inr \<lparr>resampler = soxr, inRate = inputRate, outRate = outputRate,
                            channels = chans, inFrameSize = inSize, outFrameSize = outSize,
                            destination = writer\<rparr>, tr @ [ev]))))"

text \<open>
  \<open>C.GoBytes(dataOut, n)\<close> copies the first \<open>n\<close> bytes at \<open>dataOut\<close>, and panics on
  a negative \<open>n\<close>.
\<close>

definition GoBytes :: "(nat \<Rightarrow> byte) \<Rightarrow> int \<Rightarrow> byte list option" where
  "GoBytes dataOut n = (if n < 0 then None else Some (map dataOut [0..<nat n]))"

text \<open>The length \<open>C.int(int(done)*r.channels*r.outFrameSize)\<close>.\<close>

definition out_len :: "Resampler \<Rightarrow> nat \<Rightarrow> int" where
  "out_len r done = C_int (go_mul (go_mul (go_int (int done)) (channels r)) (outFrameSize r))"

text \<open>
  The statement \<open>_, err = r.destination.Write(C.GoBytes(dataOut, ...))\<close>, shared by
  \<open>Write\<close> and \<open>flush\<close>: it panics on a nil destination and on a negative length.
\<close>

definition write_out ::
  "env \<Rightarrow> Resampler \<Rightarrow> event list \<Rightarrow> nat \<Rightarrow> (nat \<Rightarrow> byte) \<Rightarrow> (string option \<times> event list) outcome" where
  "write_out E r tr done dataOut =
     (case destination r of
        None \<Rightarrow> Panic
      | Some w \<Rightarrow>
         (case GoBytes dataOut (out_len r done) of
            None \<Rightarrow> Panic
          | Some bs \<Rightarrow> Return (dest_write E tr (DestWrite w bs), tr @ [DestWrite w bs])))"

definition flush :: "env \<Rightarrow> Resampler \<Rightarrow> event list \<Rightarrow> (string option \<times> event list) outcome" where
  "flush E r tr =
     (let framesOut = 4096 * 16;
          ev = SoxrProcess (resampler r) None 0 (C_size_t framesOut);
          (soxErr, done, dataOut) = soxr_process E tr ev
      in if soxErr \<noteq> '''' \<and> soxErr \<noteq> ''0'' then Return (Some soxErr, tr @ [ev])
         else write_out E r (tr @ [ev]) done dataOut)"

definition Reset ::
  "env \<Rightarrow> Resampler \<Rightarrow> event list \<Rightarrow> writer option \<Rightarrow>
     (string option \<times> Resampler \<times> event list) outcome" where
  "Reset E r tr writer =
     (if resampler r = None then Return (Some ''soxr resampler is nil'', r, tr)
      else case flush E r tr of
        Panic \<Rightarrow> Panic
      | Return (err, tr1) \<Rightarrow>
          Return (err, r\<lparr>destination := writer\<rparr>, tr1 @ [SoxrClear (resampler r)]))"

definition Close ::
  "env \<Rightarrow> Resampler \<Rightarrow> event list \<Rightarrow> (string option \<times> Resampler \<times> event list) outcome" where
  "Close E r tr =
     (if resampler r = None then Return (Some ''soxr resampler is nil'', r, tr)
      else case flush E r tr of
        Panic \<Rightarrow> Panic
      | Return (err, tr1) \<Rightarrow>
          Return (err, r\<lparr>resampler := None\<rparr>, tr1 @ [SoxrDelete (resampler r)]))"

text \<open>The two frame counts of \<open>Write\<close>.\<close>

definition framesIn :: "Resampler \<Rightarrow> byte list \<Rightarrow> int" where
  "framesIn r p = go_div (go_div (int (length p)) (inFrameSize r)) (channels r)"

definition framesOut :: "env \<Rightarrow> Resampler \<Rightarrow> byte list \<Rightarrow> int" where
  "framesOut E r p =
     f64_to_int (float_to_int E)
       (f64_mul (f64_of_int (framesIn r p)) (f64_div (outRate r) (inRate r)))"

text \<open>
  \<open>Write\<close> returns the count \<open>i\<close>, the error, the resampler (which it does not
  change) and the trace. The integer divisions panic on a zero divisor.
\<close>

definition Write ::
  "env \<Rightarrow> Resampler \<Rightarrow> event list \<Rightarrow> byte list \<Rightarrow>
     ((int \<times> string option) \<times> Resampler \<times> event list) outcome" where
  "Write E r tr p =
     (if resampler r = None then Return ((0, Some ''soxr resampler is nil''), r, tr)
      else if length p = 0 then Return ((0, None), r, tr)
      else if inFrameSize r = 0 \<or> channels r = 0 then Panic
      else if framesIn r p = 0 then Return ((0, Some ''incomplete input frame data''), r, tr)
      else if framesOut E r p = 0
        then Return ((0, Some ''not enough input to generate output''), r, tr)
      else
        (let ev = SoxrProcess (resampler r) (Some p) (C_size_t (framesIn r p))
                    (C_size_t (framesOut E r p));
             (soxErr, done, dataOut) = soxr_process E tr ev
         in if soxErr \<noteq> '''' \<and> soxErr \<noteq> ''0'' then Return ((0, Some soxErr), r, tr @ [ev])
            else case write_out E r (tr @ [ev]) done dataOut of
              Panic \<Rightarrow> Panic
            | Return (err, tr2) \<Rightarrow>
                Return ((if err = None then int (length p) else 0, err), r, tr2)))"

section \<open>Concrete environments and resamplers\<close>

text \<open>
  A quiet engine that accepts every call and emits nothing, with a destination that
  accepts every write; and the same with a destination that refuses every write.
\<close>

definition quiet_env :: env where
  "quiet_env = \<lparr>threads = 4,
     soxr_create = (\<lambda>tr ev. (Some 1, '''')),
     soxr_process = (\<lambda>tr ev. ('''', 0, \<lambda>i. 0)),
     dest_write = (\<lambda>tr ev. None),
     float_to_int = (\<lambda>x. - (2 ^ 63))\<rparr>"

definition full_disk_env :: env where
  "full_disk_env = quiet_env\<lparr>dest_write := (\<lambda>tr ev. Some ''disk full'')\<rparr>"

text \<open>Two channels of 16-bit samples, from 16000 Hz down to 8000 Hz, writing to writer 7.\<close>

definition demo :: Resampler where
  "demo = \<lparr>resampler = Some 1, inRate = Finite False 16000, outRate = Finite False 8000,
     channels = 2, inFrameSize = 2, outFrameSize = 2, destination = Some 7\<rparr>"

text \<open>
  One channel of 16-bit samples from 1 Hz to the \<open>float64\<close> next below one third of
  a hertz, \<open>0x3FD5555555555555\<close>.
\<close>

definition third :: Resampler where
  "third = \<lparr>resampler = Some 1, inRate = Finite False 1,
     outRate = Finite False (6004799503160661 / 18014398509481984),
     channels = 1, inFrameSize = 2, outFrameSize = 2, destination = Some 7\<rparr>"

text \<open>
  An engine that emits one frame of bytes 255 on every call, with a destination that
  accepts every write; and the same with a destination that refuses every write.
\<close>

definition humming_env :: env where
  "humming_env = quiet_env\<lparr>soxr_process := (\<lambda>tr ev. ('''', 1, \<lambda>i. 255))\<rparr>"

definition humming_full_disk_env :: env where
  "humming_full_disk_env = humming_env\<lparr>dest_write := (\<lambda>tr ev. Some ''disk full'')\<rparr>"

text \<open>How often an engine has been handed to \<open>soxr_delete\<close>, and the writers written to.\<close>

fun is_delete :: "handle option \<Rightarrow> event \<Rightarrow> bool" where
  "is_delete h (SoxrDelete h') = (h = h')"
| "is_delete h ev = False"

definition releases :: "handle option \<Rightarrow> event list \<Rightarrow> nat" where
  "releases h tr = length (filter (is_delete h) tr)"

fun dest_writers :: "event list \<Rightarrow> writer list" where
  "dest_writers [] = []"
| "dest_writers (DestWrite w bs # tr) = w # dest_writers tr"
| "dest_writers (ev # tr) = dest_writers tr"

section \<open>Zero-length writes and the closed state\<close>

lemma New_demo:
  "New quiet_env [] (Some 7) (Finite False 16000) (Finite False 8000) 2 I16 I16 HighQ =
     (Inr demo, [SoxrCreate (Finite False 16000) (Finite False 8000) 2 3 3 4 4])"
  by (simp add: New_def quiet_env_def demo_def sizeOf_def I16_def F64_def F32_def I32_def
      HighQ_def C_uint_def)

text \<open>
  C9. On a resampler whose engine is present (the stream is Active), a write of no
  bytes returns 0 and no error, and makes no call at all: the trace and the resampler
  are as before.
\<close>

theorem Write_empty_active:
  "resampler r \<noteq> None \<Longrightarrow> Write E r tr [] = Return ((0, None), r, tr)"
  by (simp add: Write_def)

theorem Write_empty_active_witness:
  "resampler demo \<noteq> None \<and> Write quiet_env demo [] [] = Return ((0, None), demo, [])"
proof -
  have a: "resampler demo \<noteq> None" by (simp add: demo_def)
  from Write_empty_active [OF a, of quiet_env "[]"] a show ?thesis by simp
qed

text \<open>
  C10. \<open>Write\<close> tests the engine before it tests the length: a write of no bytes on a
  resampler without an engine (a closed one) returns 0 and the error
  ``soxr resampler is nil'', and it returns 0 without an error exactly when the engine
  is present.
\<close>

theorem Write_empty_closed_first:
  "Write E r tr [] =
     Return ((0, if resampler r = None then Some ''soxr resampler is nil'' else None), r, tr)"
  by (simp add: Write_def)

theorem Write_empty_closed_first_witness:
  "Write quiet_env (demo\<lparr>resampler := None\<rparr>) [] [] =
     Return ((0, Some ''soxr resampler is nil''), demo\<lparr>resampler := None\<rparr>, [])"
  using Write_empty_closed_first [of quiet_env "demo\<lparr>resampler := None\<rparr>" "[]"] by simp

section \<open>What a call adds to the trace\<close>

lemma dest_writers_append: "dest_writers (xs @ ys) = dest_writers xs @ dest_writers ys"
  by (induction xs rule: dest_writers.induct) simp_all

lemma releases_append: "releases h (xs @ ys) = releases h xs + releases h ys"
  by (simp add: releases_def)

lemma write_out_Return:
  "write_out E r tr done dataOut = Return (err, tr1) \<Longrightarrow>
     \<exists>w bs. destination r = Some w \<and> tr1 = tr @ [DestWrite w bs] \<and>
       err = dest_write E tr (DestWrite w bs)"
  by (auto simp: write_out_def split: option.splits)

lemma flush_Return:
  assumes "flush E r tr = Return (err, tr1)"
  shows "\<exists>evs. tr1 = tr @ SoxrProcess (resampler r) None 0 65536 # evs \<and>
           (evs = [] \<or> (\<exists>w bs. destination r = Some w \<and> evs = [DestWrite w bs]))"
proof -
  obtain soxErr n dataOut where
    p: "soxr_process E tr (SoxrProcess (resampler r) None 0 65536) = (soxErr, n, dataOut)"
    by (metis prod_cases3)
  show ?thesis
  proof (cases "soxErr \<noteq> [] \<and> soxErr \<noteq> ''0''")
    case True
    with assms p show ?thesis by (auto simp: flush_def C_size_t_def)
  next
    case False
    with assms p have
      "write_out E r (tr @ [SoxrProcess (resampler r) None 0 65536]) n dataOut = Return (err, tr1)"
      by (auto simp: flush_def C_size_t_def)
    from write_out_Return [OF this] show ?thesis by auto
  qed
qed

section \<open>Close\<close>

text \<open>
  C3. When \<open>Close\<close> returns, with or without an error, the resampler has no engine
  (the stream is Closed). From then on \<open>Close\<close> returns the error
  ``soxr resampler is nil'' and changes nothing, and \<open>Write\<close> of any bytes returns 0
  and the same error, in every environment and after any further calls.
\<close>

theorem Close_then_misuse:
  assumes "Close E r tr = Return (err, r', tr')"
  shows "resampler r' = None \<and>
         Close E2 r' tr2 = Return (Some ''soxr resampler is nil'', r', tr2) \<and>
         Write E2 r' tr2 p = Return ((0, Some ''soxr resampler is nil''), r', tr2)"
proof -
  from assms have "resampler r' = None"
    by (auto simp: Close_def split: if_splits outcome.splits)
  then show ?thesis by (simp add: Close_def Write_def)
qed

lemma flush_quiet_demo:
  "flush quiet_env demo [] =
     Return (None, [SoxrProcess (Some 1) None 0 65536, DestWrite 7 []])"
  by (simp add: flush_def write_out_def GoBytes_def out_len_def quiet_env_def demo_def
      C_size_t_def C_int_def go_mul_def go_int_def)

lemma flush_full_disk_demo:
  "flush full_disk_env demo [] =
     Return (Some ''disk full'', [SoxrProcess (Some 1) None 0 65536, DestWrite 7 []])"
  by (simp add: flush_def write_out_def GoBytes_def out_len_def quiet_env_def demo_def
      full_disk_env_def C_size_t_def C_int_def go_mul_def go_int_def)

theorem Close_then_misuse_witness:
  "Close quiet_env demo [] =
     Return (None, demo\<lparr>resampler := None\<rparr>,
       [SoxrProcess (Some 1) None 0 65536, DestWrite 7 [], SoxrDelete (Some 1)]) \<and>
   resampler (demo\<lparr>resampler := None\<rparr>) = None \<and>
   Close full_disk_env (demo\<lparr>resampler := None\<rparr>) [] =
     Return (Some ''soxr resampler is nil'', demo\<lparr>resampler := None\<rparr>, []) \<and>
   Write full_disk_env (demo\<lparr>resampler := None\<rparr>) [] [1, 2, 3, 4] =
     Return ((0, Some ''soxr resampler is nil''), demo\<lparr>resampler := None\<rparr>, [])"
proof -
  have c: "Close quiet_env demo [] =
     Return (None, demo\<lparr>resampler := None\<rparr>,
       [SoxrProcess (Some 1) None 0 65536, DestWrite 7 [], SoxrDelete (Some 1)])"
    by (simp add: Close_def flush_quiet_demo) (simp add: demo_def)
  from Close_then_misuse [OF c, of full_disk_env "[]" "[1, 2, 3, 4]"] c show ?thesis
    by simp
qed

text \<open>
  C4. On a resampler with an engine, \<open>Close\<close> first runs \<open>flush\<close> (the first new
  event is the engine call with no input and a capacity of 65536 frames). Whatever
  error \<open>flush\<close> returns, if any, \<open>Close\<close> then hands the engine to \<open>soxr_delete\<close>,
  leaves the resampler without engine (Closed) and returns that error. The engine is
  released once by this call, and a later \<open>Close\<close> adds no call at all. \<open>Close\<close>
  panics only where \<open>flush\<close> does.
\<close>

theorem Close_first:
  assumes "resampler r \<noteq> None"
  shows "(flush E r tr = Panic \<longrightarrow> Close E r tr = Panic) \<and>
         (\<forall>err tr1. flush E r tr = Return (err, tr1) \<longrightarrow>
            Close E r tr =
              Return (err, r\<lparr>resampler := None\<rparr>, tr1 @ [SoxrDelete (resampler r)]) \<and>
            (\<exists>evs. tr1 = tr @ SoxrProcess (resampler r) None 0 65536 # evs) \<and>
            releases (resampler r) (tr1 @ [SoxrDelete (resampler r)]) =
              Suc (releases (resampler r) tr) \<and>
            (\<forall>E2 tr2. Close E2 (r\<lparr>resampler := None\<rparr>) tr2 =
               Return (Some ''soxr resampler is nil'', r\<lparr>resampler := None\<rparr>, tr2)))"
proof (intro conjI allI impI)
  assume "flush E r tr = Panic"
  with assms show "Close E r tr = Panic" by (simp add: Close_def)
next
  fix err tr1
  assume f: "flush E r tr = Return (err, tr1)"
  with assms show
    "Close E r tr = Return (err, r\<lparr>resampler := None\<rparr>, tr1 @ [SoxrDelete (resampler r)])"
    by (auto simp: Close_def)
  from flush_Return [OF f] obtain evs where
    t: "tr1 = tr @ SoxrProcess (resampler r) None 0 65536 # evs" and
    e: "evs = [] \<or> (\<exists>w bs. destination r = Some w \<and> evs = [DestWrite w bs])"
    by blast
  from t show "\<exists>evs. tr1 = tr @ SoxrProcess (resampler r) None 0 65536 # evs" by blast
  from e have "releases (resampler r) evs = 0" by (auto simp: releases_def)
  with t show "releases (resampler r) (tr1 @ [SoxrDelete (resampler r)]) =
      Suc (releases (resampler r) tr)"
    by (simp add: releases_def)
next
  fix err tr1 E2 tr2
  show "Close E2 (r\<lparr>resampler := None\<rparr>) tr2 =
      Return (Some ''soxr resampler is nil'', r\<lparr>resampler := None\<rparr>, tr2)"
    by (simp add: Close_def)
qed

theorem Close_first_witness:
  "resampler demo \<noteq> None \<and>
   flush full_disk_env demo [] =
     Return (Some ''disk full'', [SoxrProcess (Some 1) None 0 65536, DestWrite 7 []]) \<and>
   Close full_disk_env demo [] =
     Return (Some ''disk full'', demo\<lparr>resampler := None\<rparr>,
       [SoxrProcess (Some 1) None 0 65536, DestWrite 7 [], SoxrDelete (Some 1)]) \<and>
   releases (Some 1) [SoxrProcess (Some 1) None 0 65536, DestWrite 7 [], SoxrDelete (Some 1)] = 1"
proof -
  have a: "resampler demo \<noteq> None" and h: "resampler demo = Some 1"
    by (simp_all add: demo_def)
  from Close_first [OF a, of full_disk_env "[]"] flush_full_disk_demo a h show ?thesis
    by (simp add: releases_def)
qed

section \<open>Write\<close>

lemma Write_Return:
  assumes "Write E r tr p = Return ((n, err), r', tr')"
  shows "r' = r \<and>
         ((n = int (length p) \<and> err = None) \<or> (n = 0 \<and> err \<noteq> None)) \<and>
         (tr' = tr \<or>
          tr' = tr @ [SoxrProcess (resampler r) (Some p) (C_size_t (framesIn r p))
                        (C_size_t (framesOut E r p))] \<or>
          (\<exists>w bs. destination r = Some w \<and>
             tr' = tr @ [SoxrProcess (resampler r) (Some p) (C_size_t (framesIn r p))
                           (C_size_t (framesOut E r p)), DestWrite w bs] \<and>
             err = dest_write E
                     (tr @ [SoxrProcess (resampler r) (Some p) (C_size_t (framesIn r p))
                              (C_size_t (framesOut E r p))]) (DestWrite w bs)))"
proof -
  let ?ev = "SoxrProcess (resampler r) (Some p) (C_size_t (framesIn r p))
               (C_size_t (framesOut E r p))"
  obtain soxErr n1 dataOut where pr: "soxr_process E tr ?ev = (soxErr, n1, dataOut)"
    by (metis prod_cases3)
  show ?thesis
  proof (cases "write_out E r (tr @ [?ev]) n1 dataOut")
    case Panic
    with assms pr show ?thesis
      by (auto simp: Write_def Let_def split: if_splits)
  next
    case (Return res)
    obtain e2 tr2 where res: "res = (e2, tr2)" by (cases res)
    from write_out_Return [OF Return [unfolded res]] obtain w bs where
      w: "destination r = Some w" "tr2 = tr @ [?ev] @ [DestWrite w bs]"
         "e2 = dest_write E (tr @ [?ev]) (DestWrite w bs)"
      by auto
    from assms pr Return res w show ?thesis
      by (auto simp: Write_def Let_def split: if_splits)
  qed
qed

text \<open>
  C2. On a resampler with an engine, whenever \<open>Write\<close> returns, it returns either
  the whole length \<open>len(p)\<close> and no error, or 0 and an error. In particular, when
  the last call of \<open>Write\<close> is a write to the destination that fails with an error
  \<open>e\<close>, \<open>Write\<close> returns 0 and \<open>e\<close>, although the engine has been given the input
  \<open>p\<close> in the call just before. \<open>Write\<close> does not return (it panics) only on a zero
  frame size or channel count, on a nil destination, or on a negative output length.
\<close>

theorem Write_all_or_nothing:
  assumes "resampler r \<noteq> None"
  shows "(\<forall>n err r' tr'. Write E r tr p = Return ((n, err), r', tr') \<longrightarrow>
            (n = int (length p) \<and> err = None) \<or> (n = 0 \<and> err \<noteq> None)) \<and>
         (\<forall>n err r' evs w bs e.
            Write E r tr p = Return ((n, err), r', tr @ evs @ [DestWrite w bs]) \<and>
            dest_write E (tr @ evs) (DestWrite w bs) = Some e \<longrightarrow>
            n = 0 \<and> err = Some e \<and>
            evs = [SoxrProcess (resampler r) (Some p) (C_size_t (framesIn r p))
                     (C_size_t (framesOut E r p))]) \<and>
         (Write E r tr p = Panic \<longrightarrow>
            inFrameSize r = 0 \<or> channels r = 0 \<or> destination r = None \<or>
            out_len r (fst (snd (soxr_process E tr
              (SoxrProcess (resampler r) (Some p) (C_size_t (framesIn r p))
                 (C_size_t (framesOut E r p)))))) < 0)"
proof -
  have "(n = int (length p) \<and> err = None) \<or> (n = 0 \<and> err \<noteq> None)"
    if "Write E r tr p = Return ((n, err), r', tr')" for n err r' tr'
    using Write_Return [OF that] by blast
  moreover
  have "n = 0 \<and> err = Some e \<and>
      evs = [SoxrProcess (resampler r) (Some p) (C_size_t (framesIn r p))
               (C_size_t (framesOut E r p))]"
    if a: "Write E r tr p = Return ((n, err), r', tr @ evs @ [DestWrite w bs]) \<and>
    dest_write E (tr @ evs) (DestWrite w bs) = Some e" for n err r' evs w bs e
  proof -
  let ?ev = "SoxrProcess (resampler r) (Some p) (C_size_t (framesIn r p))
               (C_size_t (framesOut E r p))"
  from a Write_Return [of E r tr p n err r' "tr @ evs @ [DestWrite w bs]"]
  have sh: "(n = int (length p) \<and> err = None) \<or> (n = 0 \<and> err \<noteq> None)"
    and c: "evs @ [DestWrite w bs] = [] \<or> evs @ [DestWrite w bs] = [?ev] \<or>
        (\<exists>w' bs'. destination r = Some w' \<and> evs @ [DestWrite w bs] = [?ev, DestWrite w' bs'] \<and>
           err = dest_write E (tr @ [?ev]) (DestWrite w' bs'))"
    by auto
  from c have "evs = [?ev] \<and> err = dest_write E (tr @ [?ev]) (DestWrite w bs)"
    by (cases evs) auto
  with a sh show ?thesis by auto
  qed
  moreover
  have "inFrameSize r = 0 \<or> channels r = 0 \<or> destination r = None \<or>
      out_len r (fst (snd (soxr_process E tr
        (SoxrProcess (resampler r) (Some p) (C_size_t (framesIn r p))
           (C_size_t (framesOut E r p)))))) < 0"
    if "Write E r tr p = Panic"
    using that assms
    by (auto simp: Write_def Let_def write_out_def GoBytes_def
        split: if_splits prod.splits option.splits outcome.splits)
  ultimately show ?thesis by blast
qed

section \<open>Evaluation on the concrete resamplers\<close>

lemmas round64_eval = round64_def ilog2_def compute_bitlen pow2_def rne_def Let_def

lemma demo_sel:
  "resampler demo = Some 1" "inRate demo = Finite False 16000"
  "outRate demo = Finite False 8000" "channels demo = 2" "inFrameSize demo = 2"
  "outFrameSize demo = 2" "destination demo = Some 7"
  by (simp_all add: demo_def)

lemma quiet_env_sel:
  "soxr_process quiet_env = (\<lambda>tr ev. ('''', 0, \<lambda>i. 0))"
  "dest_write quiet_env = (\<lambda>tr ev. None)"
  "soxr_process full_disk_env = (\<lambda>tr ev. ('''', 0, \<lambda>i. 0))"
  "dest_write full_disk_env = (\<lambda>tr ev. Some ''disk full'')"
  by (simp_all add: quiet_env_def full_disk_env_def)

lemma framesIn_demo:
  "framesIn demo [1, 2, 3] = 0"
  "framesIn demo [1, 2, 3, 4] = 1"
  "framesIn demo [1, 2, 3, 4, 5, 6, 7, 8] = 2"
  "framesIn demo [1, 2, 3, 4, 5, 6, 7, 8, 9] = 2"
  by (simp_all add: framesIn_def demo_sel go_div_def go_int_def)

lemma ratio_demo: "f64_div (outRate demo) (inRate demo) = Finite False (1 / 2)"
  by (simp add: demo_sel round64_eval)

lemma f64_of_int_1_2: "f64_of_int 1 = Finite False 1" "f64_of_int 2 = Finite False 2"
  by (simp_all add: f64_of_int_def round64_eval)

lemma round64_half_1: "round64 False (1 / 2) = Finite False (1 / 2)" "round64 False 1 = Finite False 1"
  by (simp_all add: round64_eval)

lemma framesOut_demo:
  "framesOut E demo [1, 2, 3, 4] = 0"
  "framesOut E demo [1, 2, 3, 4, 5, 6, 7, 8] = 1"
  "framesOut E demo [1, 2, 3, 4, 5, 6, 7, 8, 9] = 1"
  by (simp_all add: framesOut_def framesIn_demo ratio_demo f64_of_int_1_2 round64_half_1
      f64_to_int_def)

lemma out_len_demo_0: "out_len demo 0 = 0"
  by (simp add: out_len_def demo_sel C_int_def go_mul_def go_int_def)

lemma Write_quiet_demo_8:
  "Write quiet_env demo [] [1, 2, 3, 4, 5, 6, 7, 8] =
     Return ((8, None), demo,
       [SoxrProcess (Some 1) (Some [1, 2, 3, 4, 5, 6, 7, 8]) 2 1, DestWrite 7 []])"
  by (simp add: Write_def framesIn_demo framesOut_demo demo_sel quiet_env_sel write_out_def
      GoBytes_def out_len_demo_0 C_size_t_def)

lemma Write_full_disk_demo_8:
  "Write full_disk_env demo [] [1, 2, 3, 4, 5, 6, 7, 8] =
     Return ((0, Some ''disk full''), demo,
       [SoxrProcess (Some 1) (Some [1, 2, 3, 4, 5, 6, 7, 8]) 2 1, DestWrite 7 []])"
  by (simp add: Write_def framesIn_demo framesOut_demo demo_sel quiet_env_sel write_out_def
      GoBytes_def out_len_demo_0 C_size_t_def)

theorem Write_all_or_nothing_witness:
  "resampler demo \<noteq> None \<and>
   Write quiet_env demo [] [1, 2, 3, 4, 5, 6, 7, 8] =
     Return ((8, None), demo,
       [SoxrProcess (Some 1) (Some [1, 2, 3, 4, 5, 6, 7, 8]) 2 1, DestWrite 7 []]) \<and>
   dest_write full_disk_env [SoxrProcess (Some 1) (Some [1, 2, 3, 4, 5, 6, 7, 8]) 2 1]
     (DestWrite 7 []) = Some ''disk full'' \<and>
   Write full_disk_env demo [] [1, 2, 3, 4, 5, 6, 7, 8] =
     Return ((0, Some ''disk full''), demo,
       [SoxrProcess (Some 1) (Some [1, 2, 3, 4, 5, 6, 7, 8]) 2 1, DestWrite 7 []])"
proof -
  have a: "resampler demo \<noteq> None" by (simp add: demo_sel)
  note t = Write_all_or_nothing [OF a, of full_disk_env "[]" "[1, 2, 3, 4, 5, 6, 7, 8]"]
  from t a Write_quiet_demo_8 Write_full_disk_demo_8 show ?thesis
    by (simp add: quiet_env_sel)
qed

section \<open>Reset\<close>

text \<open>What \<open>flush\<close> and \<open>Write\<close> hand to the destination, byte for byte.\<close>

lemma write_out_exact:
  assumes "write_out E r tr dn dataOut = Return (err, tr1)"
  shows "\<exists>w. destination r = Some w \<and> 0 \<le> out_len r dn \<and>
           tr1 = tr @ [DestWrite w (map dataOut [0..<nat (out_len r dn)])] \<and>
           err = dest_write E tr (DestWrite w (map dataOut [0..<nat (out_len r dn)]))"
  using assms by (auto simp: write_out_def GoBytes_def split: option.splits if_splits)

lemma flush_exact:
  assumes f: "flush E r tr = Return (err, tr1)"
    and p: "soxr_process E tr (SoxrProcess (resampler r) None 0 65536) = (soxErr, dn, dataOut)"
  shows "(soxErr \<noteq> '''' \<and> soxErr \<noteq> ''0'' \<longrightarrow>
            err = Some soxErr \<and> tr1 = tr @ [SoxrProcess (resampler r) None 0 65536]) \<and>
         (soxErr = '''' \<or> soxErr = ''0'' \<longrightarrow>
            (\<exists>old. destination r = Some old \<and> 0 \<le> out_len r dn \<and>
               tr1 = tr @ [SoxrProcess (resampler r) None 0 65536,
                           DestWrite old (map dataOut [0..<nat (out_len r dn)])] \<and>
               err = dest_write E (tr @ [SoxrProcess (resampler r) None 0 65536])
                       (DestWrite old (map dataOut [0..<nat (out_len r dn)]))))"
proof -
  have "err = Some soxErr \<and> tr1 = tr @ [SoxrProcess (resampler r) None 0 65536]"
    if "soxErr \<noteq> '''' \<and> soxErr \<noteq> ''0''"
    using that f p by (auto simp: flush_def C_size_t_def)
  moreover
  have "\<exists>old. destination r = Some old \<and> 0 \<le> out_len r dn \<and>
      tr1 = tr @ [SoxrProcess (resampler r) None 0 65536,
                  DestWrite old (map dataOut [0..<nat (out_len r dn)])] \<and>
      err = dest_write E (tr @ [SoxrProcess (resampler r) None 0 65536])
              (DestWrite old (map dataOut [0..<nat (out_len r dn)]))"
    if ok: "soxErr = '''' \<or> soxErr = ''0''"
  proof -
  from ok f p have
    "write_out E r (tr @ [SoxrProcess (resampler r) None 0 65536]) dn dataOut = Return (err, tr1)"
    by (auto simp: flush_def C_size_t_def)
  from write_out_exact [OF this] show ?thesis by auto
  qed
  ultimately show ?thesis by blast
qed

lemma framesIn_nonzero:
  "framesIn r p \<noteq> 0 \<Longrightarrow> p \<noteq> [] \<and> inFrameSize r \<noteq> 0 \<and> channels r \<noteq> 0"
  by (auto simp: framesIn_def go_div_def go_int_def)

lemma Write_exact:
  assumes w: "Write E r tr p = Return (res, r', tr')"
    and a: "resampler r \<noteq> None" "p \<noteq> []" "framesIn r p \<noteq> 0" "framesOut E r p \<noteq> 0"
    and p: "soxr_process E tr (SoxrProcess (resampler r) (Some p) (C_size_t (framesIn r p))
              (C_size_t (framesOut E r p))) = (soxErr, dn, dataOut)"
    and ok: "soxErr = '''' \<or> soxErr = ''0''"
  shows "\<exists>w. destination r = Some w \<and> 0 \<le> out_len r dn \<and>
           tr' = tr @ [SoxrProcess (resampler r) (Some p) (C_size_t (framesIn r p))
                         (C_size_t (framesOut E r p)),
                       DestWrite w (map dataOut [0..<nat (out_len r dn)])]"
proof -
  let ?ev = "SoxrProcess (resampler r) (Some p) (C_size_t (framesIn r p))
               (C_size_t (framesOut E r p))"
  from framesIn_nonzero [OF a(3)] have nz: "inFrameSize r \<noteq> 0" "channels r \<noteq> 0" by simp_all
  from w a p ok nz obtain e2 where
    "write_out E r (tr @ [?ev]) dn dataOut = Return (e2, tr')"
    by (auto simp: Write_def split: outcome.splits)
  from write_out_exact [OF this] show ?thesis by auto
qed

text \<open>
  C5. \<open>Reset\<close> on a resampler without engine returns the error
  ``soxr resampler is nil'' and changes nothing. On a resampler with an engine it runs
  \<open>flush\<close>: the engine is called with no input and a capacity of 65536 frames, and,
  unless the engine reports an error, the bytes of the frames it reports done, the
  first \<open>out_len r dn\<close> bytes of its output buffer, are written to the old
  destination. Only then \<open>Reset\<close> installs the new destination and calls
  \<open>soxr_clear\<close> on the engine, which it keeps (the stream stays Active); it returns
  the error of \<open>flush\<close>, if any, and the swap takes place all the same. Every later
  \<open>Write\<close> that the engine accepts writes the bytes the engine reports done to the
  new destination, and no later \<open>Write\<close> writes anywhere else. \<open>Reset\<close> panics only
  where \<open>flush\<close> does.
\<close>

theorem Reset_flushes_old_first:
  "(resampler r = None \<longrightarrow>
      Reset E r tr new = Return (Some ''soxr resampler is nil'', r, tr)) \<and>
   (resampler r \<noteq> None \<longrightarrow>
      (flush E r tr = Panic \<longrightarrow> Reset E r tr new = Panic) \<and>
      (\<forall>err tr1. flush E r tr = Return (err, tr1) \<longrightarrow>
         Reset E r tr new =
           Return (err, r\<lparr>destination := new\<rparr>, tr1 @ [SoxrClear (resampler r)]) \<and>
         resampler (r\<lparr>destination := new\<rparr>) = resampler r \<and>
         (\<exists>evs. tr1 = tr @ SoxrProcess (resampler r) None 0 65536 # evs \<and>
            set (dest_writers evs) \<subseteq> set_option (destination r)) \<and>
         (\<forall>soxErr dn dataOut.
            soxr_process E tr (SoxrProcess (resampler r) None 0 65536) =
              (soxErr, dn, dataOut) \<longrightarrow>
            (soxErr \<noteq> '''' \<and> soxErr \<noteq> ''0'' \<longrightarrow>
               err = Some soxErr \<and> tr1 = tr @ [SoxrProcess (resampler r) None 0 65536]) \<and>
            (soxErr = '''' \<or> soxErr = ''0'' \<longrightarrow>
               (\<exists>old. destination r = Some old \<and> 0 \<le> out_len r dn \<and>
                  tr1 = tr @ [SoxrProcess (resampler r) None 0 65536,
                              DestWrite old (map dataOut [0..<nat (out_len r dn)])] \<and>
                  err = dest_write E (tr @ [SoxrProcess (resampler r) None 0 65536])
                          (DestWrite old (map dataOut [0..<nat (out_len r dn)]))))) \<and>
         (\<forall>E2 tr2 p res r2 tr3.
            Write E2 (r\<lparr>destination := new\<rparr>) tr2 p = Return (res, r2, tr3) \<longrightarrow>
            r2 = r\<lparr>destination := new\<rparr> \<and>
            (\<exists>evs. tr3 = tr2 @ evs \<and> set (dest_writers evs) \<subseteq> set_option new) \<and>
            (\<forall>soxErr dn dataOut.
               p \<noteq> [] \<and> framesIn (r\<lparr>destination := new\<rparr>) p \<noteq> 0 \<and>
               framesOut E2 (r\<lparr>destination := new\<rparr>) p \<noteq> 0 \<and>
               soxr_process E2 tr2
                 (SoxrProcess (resampler r) (Some p)
                    (C_size_t (framesIn (r\<lparr>destination := new\<rparr>) p))
                    (C_size_t (framesOut E2 (r\<lparr>destination := new\<rparr>) p))) =
                 (soxErr, dn, dataOut) \<and>
               (soxErr = '''' \<or> soxErr = ''0'') \<longrightarrow>
               (\<exists>nw. new = Some nw \<and>
                  tr3 = tr2 @
                    [SoxrProcess (resampler r) (Some p)
                       (C_size_t (framesIn (r\<lparr>destination := new\<rparr>) p))
                       (C_size_t (framesOut E2 (r\<lparr>destination := new\<rparr>) p)),
                     DestWrite nw
                       (map dataOut
                          [0..<nat (out_len (r\<lparr>destination := new\<rparr>) dn)])])))))"
proof -
  let ?r' = "r\<lparr>destination := new\<rparr>"
  have closed: "Reset E r tr new = Return (Some ''soxr resampler is nil'', r, tr)"
    if "resampler r = None"
    using that by (simp add: Reset_def)
  have panic: "Reset E r tr new = Panic" if "resampler r \<noteq> None" "flush E r tr = Panic"
    using that by (simp add: Reset_def)
  have ret: "Reset E r tr new = Return (err, ?r', tr1 @ [SoxrClear (resampler r)])"
    if "resampler r \<noteq> None" "flush E r tr = Return (err, tr1)" for err tr1
    using that by (auto simp: Reset_def)
  have keep: "resampler ?r' = resampler r" by simp
  have old: "\<exists>evs. tr1 = tr @ SoxrProcess (resampler r) None 0 65536 # evs \<and>
      set (dest_writers evs) \<subseteq> set_option (destination r)"
    if "flush E r tr = Return (err, tr1)" for err tr1
    using flush_Return [OF that] by auto
  have bytes: "(soxErr \<noteq> '''' \<and> soxErr \<noteq> ''0'' \<longrightarrow>
        err = Some soxErr \<and> tr1 = tr @ [SoxrProcess (resampler r) None 0 65536]) \<and>
      (soxErr = '''' \<or> soxErr = ''0'' \<longrightarrow>
        (\<exists>old. destination r = Some old \<and> 0 \<le> out_len r dn \<and>
           tr1 = tr @ [SoxrProcess (resampler r) None 0 65536,
                       DestWrite old (map dataOut [0..<nat (out_len r dn)])] \<and>
           err = dest_write E (tr @ [SoxrProcess (resampler r) None 0 65536])
                   (DestWrite old (map dataOut [0..<nat (out_len r dn)]))))"
    if "flush E r tr = Return (err, tr1)"
      "soxr_process E tr (SoxrProcess (resampler r) None 0 65536) = (soxErr, dn, dataOut)"
    for err tr1 soxErr dn dataOut
    using flush_exact [OF that] .
  have later: "r2 = ?r' \<and>
      (\<exists>evs. tr3 = tr2 @ evs \<and> set (dest_writers evs) \<subseteq> set_option new) \<and>
      (\<forall>soxErr dn dataOut.
         p \<noteq> [] \<and> framesIn ?r' p \<noteq> 0 \<and> framesOut E2 ?r' p \<noteq> 0 \<and>
         soxr_process E2 tr2
           (SoxrProcess (resampler r) (Some p) (C_size_t (framesIn ?r' p))
              (C_size_t (framesOut E2 ?r' p))) = (soxErr, dn, dataOut) \<and>
         (soxErr = '''' \<or> soxErr = ''0'') \<longrightarrow>
         (\<exists>nw. new = Some nw \<and>
            tr3 = tr2 @
              [SoxrProcess (resampler r) (Some p) (C_size_t (framesIn ?r' p))
                 (C_size_t (framesOut E2 ?r' p)),
               DestWrite nw (map dataOut [0..<nat (out_len ?r' dn)])]))"
    if act: "resampler r \<noteq> None"
      and w: "Write E2 ?r' tr2 p = Return (res, r2, tr3)"
    for E2 tr2 p res r2 tr3
  proof -
    obtain n err where res: "res = (n, err)" by (cases res)
    note wr = Write_Return [OF w [unfolded res]]
    from wr have 1: "r2 = ?r'" by blast
    from wr have 2: "\<exists>evs. tr3 = tr2 @ evs \<and> set (dest_writers evs) \<subseteq> set_option new"
      by (elim conjE disjE exE) auto
    have 3: "\<exists>nw. new = Some nw \<and>
        tr3 = tr2 @
          [SoxrProcess (resampler r) (Some p) (C_size_t (framesIn ?r' p))
             (C_size_t (framesOut E2 ?r' p)),
           DestWrite nw (map dataOut [0..<nat (out_len ?r' dn)])]"
      if c: "p \<noteq> []" "framesIn ?r' p \<noteq> 0" "framesOut E2 ?r' p \<noteq> 0"
        "soxr_process E2 tr2
           (SoxrProcess (resampler r) (Some p) (C_size_t (framesIn ?r' p))
              (C_size_t (framesOut E2 ?r' p))) = (soxErr, dn, dataOut)"
        "soxErr = '''' \<or> soxErr = ''0''"
      for soxErr dn dataOut
    proof -
      from act have act': "resampler ?r' \<noteq> None" by simp
      from c(4) have c4: "soxr_process E2 tr2
           (SoxrProcess (resampler ?r') (Some p) (C_size_t (framesIn ?r' p))
              (C_size_t (framesOut E2 ?r' p))) = (soxErr, dn, dataOut)"
        by simp
      from Write_exact [OF w act' c(1,2,3) c4 c(5)] show ?thesis by auto
    qed
    from 1 2 3 show ?thesis by blast
  qed
  show ?thesis
  proof (cases "resampler r = None")
    case True
    with closed show ?thesis by simp
  next
    case False
    have "Reset E r tr new = Panic" if "flush E r tr = Panic"
      using panic [OF False that] .
    moreover
    have "Reset E r tr new = Return (err, ?r', tr1 @ [SoxrClear (resampler r)]) \<and>
        resampler ?r' = resampler r \<and>
        (\<exists>evs. tr1 = tr @ SoxrProcess (resampler r) None 0 65536 # evs \<and>
           set (dest_writers evs) \<subseteq> set_option (destination r)) \<and>
        (\<forall>soxErr dn dataOut.
           soxr_process E tr (SoxrProcess (resampler r) None 0 65536) =
             (soxErr, dn, dataOut) \<longrightarrow>
           (soxErr \<noteq> '''' \<and> soxErr \<noteq> ''0'' \<longrightarrow>
              err = Some soxErr \<and> tr1 = tr @ [SoxrProcess (resampler r) None 0 65536]) \<and>
           (soxErr = '''' \<or> soxErr = ''0'' \<longrightarrow>
              (\<exists>old. destination r = Some old \<and> 0 \<le> out_len r dn \<and>
                 tr1 = tr @ [SoxrProcess (resampler r) None 0 65536,
                             DestWrite old (map dataOut [0..<nat (out_len r dn)])] \<and>
                 err = dest_write E (tr @ [SoxrProcess (resampler r) None 0 65536])
                         (DestWrite old (map dataOut [0..<nat (out_len r dn)]))))) \<and>
        (\<forall>E2 tr2 p res r2 tr3.
           Write E2 ?r' tr2 p = Return (res, r2, tr3) \<longrightarrow>
           r2 = ?r' \<and>
           (\<exists>evs. tr3 = tr2 @ evs \<and> set (dest_writers evs) \<subseteq> set_option new) \<and>
           (\<forall>soxErr dn dataOut.
              p \<noteq> [] \<and> framesIn ?r' p \<noteq> 0 \<and> framesOut E2 ?r' p \<noteq> 0 \<and>
              soxr_process E2 tr2
                (SoxrProcess (resampler r) (Some p) (C_size_t (framesIn ?r' p))
                   (C_size_t (framesOut E2 ?r' p))) = (soxErr, dn, dataOut) \<and>
              (soxErr = '''' \<or> soxErr = ''0'') \<longrightarrow>
              (\<exists>nw. new = Some nw \<and>
                 tr3 = tr2 @
                   [SoxrProcess (resampler r) (Some p) (C_size_t (framesIn ?r' p))
                      (C_size_t (framesOut E2 ?r' p)),
                    DestWrite nw (map dataOut [0..<nat (out_len ?r' dn)])])))"
      if f: "flush E r tr = Return (err, tr1)" for err tr1
    proof (intro conjI)
      show "Reset E r tr new = Return (err, ?r', tr1 @ [SoxrClear (resampler r)])"
        using ret [OF False f] .
      show "resampler ?r' = resampler r" by (rule keep)
      show "\<exists>evs. tr1 = tr @ SoxrProcess (resampler r) None 0 65536 # evs \<and>
          set (dest_writers evs) \<subseteq> set_option (destination r)"
        using old [OF f] .
      show "\<forall>soxErr dn dataOut.
          soxr_process E tr (SoxrProcess (resampler r) None 0 65536) =
            (soxErr, dn, dataOut) \<longrightarrow>
          (soxErr \<noteq> '''' \<and> soxErr \<noteq> ''0'' \<longrightarrow>
             err = Some soxErr \<and> tr1 = tr @ [SoxrProcess (resampler r) None 0 65536]) \<and>
          (soxErr = '''' \<or> soxErr = ''0'' \<longrightarrow>
             (\<exists>old. destination r = Some old \<and> 0 \<le> out_len r dn \<and>
                tr1 = tr @ [SoxrProcess (resampler r) None 0 65536,
                            DestWrite old (map dataOut [0..<nat (out_len r dn)])] \<and>
                err = dest_write E (tr @ [SoxrProcess (resampler r) None 0 65536])
                        (DestWrite old (map dataOut [0..<nat (out_len r dn)]))))"
        using bytes [OF f] by blast
      show "\<forall>E2 tr2 p res r2 tr3.
          Write E2 ?r' tr2 p = Return (res, r2, tr3) \<longrightarrow>
          r2 = ?r' \<and>
          (\<exists>evs. tr3 = tr2 @ evs \<and> set (dest_writers evs) \<subseteq> set_option new) \<and>
          (\<forall>soxErr dn dataOut.
             p \<noteq> [] \<and> framesIn ?r' p \<noteq> 0 \<and> framesOut E2 ?r' p \<noteq> 0 \<and>
             soxr_process E2 tr2
               (SoxrProcess (resampler r) (Some p) (C_size_t (framesIn ?r' p))
                  (C_size_t (framesOut E2 ?r' p))) = (soxErr, dn, dataOut) \<and>
             (soxErr = '''' \<or> soxErr = ''0'') \<longrightarrow>
             (\<exists>nw. new = Some nw \<and>
                tr3 = tr2 @
                  [SoxrProcess (resampler r) (Some p) (C_size_t (framesIn ?r' p))
                     (C_size_t (framesOut E2 ?r' p)),
                   DestWrite nw (map dataOut [0..<nat (out_len ?r' dn)])]))"
        using later [OF False] by blast
    qed
    ultimately show ?thesis using False by blast
  qed
qed

lemma humming_sel:
  "soxr_process humming_env = (\<lambda>tr ev. ('''', 1, \<lambda>i. 255))"
  "dest_write humming_env = (\<lambda>tr ev. None)"
  "soxr_process humming_full_disk_env = (\<lambda>tr ev. ('''', 1, \<lambda>i. 255))"
  "dest_write humming_full_disk_env = (\<lambda>tr ev. Some ''disk full'')"
  by (simp_all add: humming_env_def humming_full_disk_env_def quiet_env_def)

lemma frames_destination:
  "framesIn (r\<lparr>destination := w\<rparr>) p = framesIn r p"
  "framesOut E (r\<lparr>destination := w\<rparr>) p = framesOut E r p"
  "out_len (r\<lparr>destination := w\<rparr>) dn = out_len r dn"
  by (simp_all add: framesIn_def framesOut_def out_len_def)

lemma out_len_demo_1: "out_len demo (Suc 0) = 4"
  by (simp add: out_len_def demo_sel C_int_def go_mul_def go_int_def)

lemma four_bytes: "map (\<lambda>i. 255 :: byte) [0..<4] = [255, 255, 255, 255]"
  by (simp add: upt_conv_Cons)

lemma flush_humming_full_disk_demo:
  "flush humming_full_disk_env demo [] =
     Return (Some ''disk full'',
       [SoxrProcess (Some 1) None 0 65536, DestWrite 7 [255, 255, 255, 255]])"
  by (simp add: flush_def write_out_def GoBytes_def out_len_demo_1 four_bytes humming_sel
      demo_sel C_size_t_def)

lemma Reset_humming_full_disk_demo:
  "Reset humming_full_disk_env demo [] (Some 8) =
     Return (Some ''disk full'', demo\<lparr>destination := Some 8\<rparr>,
       [SoxrProcess (Some 1) None 0 65536, DestWrite 7 [255, 255, 255, 255],
        SoxrClear (Some 1)])"
  by (simp add: Reset_def flush_humming_full_disk_demo demo_sel)

lemma Write_humming_after_Reset:
  "Write humming_env (demo\<lparr>destination := Some 8\<rparr>) tr [1, 2, 3, 4, 5, 6, 7, 8] =
     Return ((8, None), demo\<lparr>destination := Some 8\<rparr>,
       tr @ [SoxrProcess (Some 1) (Some [1, 2, 3, 4, 5, 6, 7, 8]) 2 1,
             DestWrite 8 [255, 255, 255, 255]])"
  by (simp add: Write_def frames_destination framesIn_demo framesOut_demo demo_sel humming_sel
      write_out_def GoBytes_def out_len_demo_1 four_bytes C_size_t_def)

theorem Reset_flushes_old_first_witness:
  "resampler demo \<noteq> None \<and> resampler (demo\<lparr>resampler := None\<rparr>) = None \<and>
   soxr_process humming_full_disk_env [] (SoxrProcess (resampler demo) None 0 65536) =
     ('''', 1, \<lambda>i. 255) \<and>
   flush humming_full_disk_env demo [] =
     Return (Some ''disk full'',
       [SoxrProcess (Some 1) None 0 65536, DestWrite 7 [255, 255, 255, 255]]) \<and>
   Reset humming_full_disk_env demo [] (Some 8) =
     Return (Some ''disk full'', demo\<lparr>destination := Some 8\<rparr>,
       [SoxrProcess (Some 1) None 0 65536, DestWrite 7 [255, 255, 255, 255],
        SoxrClear (Some 1)]) \<and>
   Write humming_env (demo\<lparr>destination := Some 8\<rparr>)
       [SoxrProcess (Some 1) None 0 65536, DestWrite 7 [255, 255, 255, 255],
        SoxrClear (Some 1)] [1, 2, 3, 4, 5, 6, 7, 8] =
     Return ((8, None), demo\<lparr>destination := Some 8\<rparr>,
       [SoxrProcess (Some 1) None 0 65536, DestWrite 7 [255, 255, 255, 255],
        SoxrClear (Some 1), SoxrProcess (Some 1) (Some [1, 2, 3, 4, 5, 6, 7, 8]) 2 1,
        DestWrite 8 [255, 255, 255, 255]]) \<and>
   Reset quiet_env (demo\<lparr>resampler := None\<rparr>) [] (Some 8) =
     Return (Some ''soxr resampler is nil'', demo\<lparr>resampler := None\<rparr>, [])"
proof -
  have a: "resampler demo \<noteq> None" and c: "resampler (demo\<lparr>resampler := None\<rparr>) = None"
    by (simp_all add: demo_sel)
  have w: "Write humming_env (demo\<lparr>destination := Some 8\<rparr>)
       [SoxrProcess (Some 1) None 0 65536, DestWrite 7 [255, 255, 255, 255],
        SoxrClear (Some 1)] [1, 2, 3, 4, 5, 6, 7, 8] =
     Return ((8, None), demo\<lparr>destination := Some 8\<rparr>,
       [SoxrProcess (Some 1) None 0 65536, DestWrite 7 [255, 255, 255, 255],
        SoxrClear (Some 1), SoxrProcess (Some 1) (Some [1, 2, 3, 4, 5, 6, 7, 8]) 2 1,
        DestWrite 8 [255, 255, 255, 255]])"
    using Write_humming_after_Reset
      [of "[SoxrProcess (Some 1) None 0 65536, DestWrite 7 [255, 255, 255, 255],
            SoxrClear (Some 1)]"]
    by simp
  from Reset_flushes_old_first [of demo humming_full_disk_env "[]" "Some 8"]
    Reset_flushes_old_first [of "demo\<lparr>resampler := None\<rparr>" quiet_env "[]" "Some 8"]
    a c w flush_humming_full_disk_demo Reset_humming_full_disk_demo
  show ?thesis by (simp add: humming_sel)
qed

section \<open>Incomplete frames\<close>

text \<open>
  With positive sizes and a length that fits an \<open>int\<close>, \<open>framesIn\<close> is 0 exactly
  when the input is shorter than one frame of all channels.
\<close>

lemma go_div_nonneg:
  assumes "0 \<le> a" "a < 2 ^ 63" "0 < b"
  shows "go_div a b = a div b"
proof -
  have "0 \<le> a div b" using assms by (simp add: pos_imp_zdiv_nonneg_iff)
  moreover have "a div b \<le> a" using assms zdiv_mono2 [of a 1 b] by simp
  ultimately have "go_int (a div b) = a div b"
    using assms by (simp add: go_int_def)
  moreover have "sgn a * sgn b * (\<bar>a\<bar> div \<bar>b\<bar>) = a div b"
    using assms by (cases "a = 0") (simp_all add: sgn_if)
  ultimately show ?thesis by (simp add: go_div_def)
qed

lemma framesIn_zero_iff:
  assumes "0 < inFrameSize r" "0 < channels r" "int (length p) < 2 ^ 63"
  shows "framesIn r p = 0 \<longleftrightarrow> int (length p) < inFrameSize r * channels r"
proof -
  let ?n = "int (length p)"
  have 1: "go_div ?n (inFrameSize r) = ?n div inFrameSize r"
    using assms by (simp add: go_div_nonneg)
  have "0 \<le> ?n div inFrameSize r" "?n div inFrameSize r \<le> ?n"
    using assms zdiv_mono2 [of ?n 1 "inFrameSize r"]
    by (simp_all add: pos_imp_zdiv_nonneg_iff)
  then have "framesIn r p = ?n div inFrameSize r div channels r"
    using assms 1 by (simp add: framesIn_def go_div_nonneg)
  also have "\<dots> = ?n div (inFrameSize r * channels r)"
    using assms by (simp add: zdiv_zmult2_eq)
  finally have 2: "framesIn r p = ?n div (inFrameSize r * channels r)" .
  have m: "0 < inFrameSize r * channels r" using assms by simp
  have "0 \<le> ?n div (inFrameSize r * channels r)"
    using m by (simp add: pos_imp_zdiv_nonneg_iff)
  moreover have "0 < ?n div (inFrameSize r * channels r) \<longleftrightarrow>
      inFrameSize r * channels r \<le> ?n"
    using m by (rule pos_imp_zdiv_pos_iff)
  ultimately show ?thesis using 2 by linarith
qed

text \<open>
  C1, as the code has it. On a resampler with an engine, a write of at least one
  byte that holds less than one whole frame (\<open>len(p) / inFrameSize / channels\<close> is 0)
  returns 0 and the error ``incomplete input frame data'', makes no call to the engine
  or the destination, and leaves the resampler as it is, engine included.
\<close>

theorem Write_incomplete_frame:
  assumes "resampler r \<noteq> None" and "p \<noteq> []"
    and "inFrameSize r \<noteq> 0" and "channels r \<noteq> 0"
    and "framesIn r p = 0"
  shows "Write E r tr p = Return ((0, Some ''incomplete input frame data''), r, tr)"
  using assms by (simp add: Write_def)

theorem Write_incomplete_frame_witness:
  "resampler demo \<noteq> None \<and> [1, 2, 3 :: byte] \<noteq> [] \<and> inFrameSize demo \<noteq> 0 \<and>
   channels demo \<noteq> 0 \<and> framesIn demo [1, 2, 3] = 0 \<and>
   Write quiet_env demo [] [1, 2, 3] =
     Return ((0, Some ''incomplete input frame data''), demo, [])"
proof -
  have a: "resampler demo \<noteq> None" "[1, 2, 3 :: byte] \<noteq> []" "inFrameSize demo \<noteq> 0"
    "channels demo \<noteq> 0" "framesIn demo [1, 2, 3] = 0"
    by (simp_all add: demo_sel framesIn_demo)
  from Write_incomplete_frame [OF a, of quiet_env "[]"] a show ?thesis by simp
qed

text \<open>
  C1 as stated fails: nine bytes are not a multiple of the four bytes of a frame of
  \<open>demo\<close>, yet \<open>Write\<close> hands two frames to the engine and returns 9 and no error.
\<close>

theorem Write_partial_frame_counterexample:
  "resampler demo \<noteq> None \<and>
   \<not> (channels demo * inFrameSize demo) dvd int (length [1, 2, 3, 4, 5, 6, 7, 8, 9 :: byte]) \<and>
   Write quiet_env demo [] [1, 2, 3, 4, 5, 6, 7, 8, 9] =
     Return ((9, None), demo,
       [SoxrProcess (Some 1) (Some [1, 2, 3, 4, 5, 6, 7, 8, 9]) 2 1, DestWrite 7 []])"
  by (simp add: Write_def framesIn_demo framesOut_demo demo_sel quiet_env_sel write_out_def
      GoBytes_def out_len_demo_0 C_size_t_def)

section \<open>The output frame budget\<close>

text \<open>
  C6, as the code has it. On a resampler with an engine and an input of at least one
  frame, when the budget that the code computes in \<open>float64\<close>,
  \<open>int(float64(framesIn) * (outRate / inRate))\<close> with the quotient and the product
  each rounded to the nearest \<open>float64\<close>, is 0, \<open>Write\<close> returns 0 and the error
  ``not enough input to generate output'' and makes no call to the engine or the
  destination.
\<close>

theorem Write_no_output_budget:
  assumes "resampler r \<noteq> None" and "1 \<le> framesIn r p" and "framesOut E r p = 0"
  shows "Write E r tr p = Return ((0, Some ''not enough input to generate output''), r, tr)"
proof -
  from assms(2) have nz: "framesIn r p \<noteq> 0" by simp
  from framesIn_nonzero [OF nz] nz assms(1,3) show ?thesis
    by (simp add: Write_def)
qed

theorem Write_no_output_budget_witness:
  "resampler demo \<noteq> None \<and> 1 \<le> framesIn demo [1, 2, 3, 4] \<and>
   framesOut quiet_env demo [1, 2, 3, 4] = 0 \<and>
   Write quiet_env demo [] [1, 2, 3, 4] =
     Return ((0, Some ''not enough input to generate output''), demo, [])"
proof -
  have a: "resampler demo \<noteq> None" "1 \<le> framesIn demo [1, 2, 3, 4]"
    "framesOut quiet_env demo [1, 2, 3, 4] = 0"
    by (simp_all add: demo_sel framesIn_demo framesOut_demo)
  from Write_no_output_budget [OF a, of "[]"] a show ?thesis by simp
qed

text \<open>
  The budget of the code is not always the floor of the exact quotient. With an
  input rate of 1 Hz and an output rate of \<open>0x3FD5555555555555\<close> (the \<open>float64\<close> next
  below one third), three frames have an exact budget below 1, but the \<open>float64\<close>
  product \<open>3 * outRate\<close> rounds to 1.
\<close>

lemma third_sel:
  "resampler third = Some 1" "inRate third = Finite False 1"
  "outRate third = Finite False (6004799503160661 / 18014398509481984)"
  "channels third = 1" "inFrameSize third = 2" "outFrameSize third = 2"
  "destination third = Some 7"
  by (simp_all add: third_def)

lemma New_third:
  "New quiet_env [] (Some 7) (Finite False 1)
     (Finite False (6004799503160661 / 18014398509481984)) 1 I16 I16 HighQ =
   (Inr third, [SoxrCreate (Finite False 1)
      (Finite False (6004799503160661 / 18014398509481984)) 1 3 3 4 4])"
  by (simp add: New_def quiet_env_def third_def sizeOf_def I16_def F64_def F32_def I32_def
      HighQ_def C_uint_def)

text \<open>The output rate of \<open>third\<close> is the \<open>float64\<close> quotient \<open>1.0 / 3.0\<close>.\<close>

lemma f64_div_1_3:
  "f64_div (Finite False 1) (Finite False 3) =
     Finite False (6004799503160661 / 18014398509481984)"
  by (simp add: round64_eval)

lemma framesIn_third: "framesIn third [1, 2, 3, 4, 5, 6] = 3"
  by (simp add: framesIn_def third_sel go_div_def go_int_def)

lemma round64_third:
  "round64 False (6004799503160661 / 18014398509481984) =
     Finite False (6004799503160661 / 18014398509481984)"
  by (simp add: round64_eval)

lemma round64_3: "round64 False 3 = Finite False 3"
  by (simp add: round64_eval)

text \<open>The exact product \<open>3 * 6004799503160661 / 18014398509481984\<close> is a tie, and rounds to 1.\<close>

lemma round64_3_thirds:
  "round64 False (18014398509481983 / 18014398509481984) = Finite False 1"
  by (simp add: round64_eval)

lemma framesOut_third: "framesOut E third [1, 2, 3, 4, 5, 6] = 1"
  by (simp add: framesOut_def framesIn_third third_sel f64_of_int_def round64_third round64_3
      round64_3_thirds f64_to_int_def)

lemma out_len_third_0: "out_len third 0 = 0"
  by (simp add: out_len_def third_sel C_int_def go_mul_def go_int_def)

text \<open>
  C6 as stated fails: the floor of \<open>framesIn \<times> outputRate / inputRate\<close> is 0, yet
  \<open>Write\<close> calls the engine with a capacity of one frame and returns 6 and no error.
\<close>

theorem Write_budget_counterexample:
  "New quiet_env [] (Some 7) (Finite False 1)
     (Finite False (6004799503160661 / 18014398509481984)) 1 I16 I16 HighQ =
   (Inr third, [SoxrCreate (Finite False 1)
      (Finite False (6004799503160661 / 18014398509481984)) 1 3 3 4 4]) \<and>
   resampler third \<noteq> None \<and>
   1 \<le> framesIn third [1, 2, 3, 4, 5, 6] \<and>
   \<lfloor>of_int (framesIn third [1, 2, 3, 4, 5, 6]) * valof (outRate third) / valof (inRate third)\<rfloor>
     = (0 :: int) \<and>
   Write quiet_env third [] [1, 2, 3, 4, 5, 6] =
     Return ((6, None), third,
       [SoxrProcess (Some 1) (Some [1, 2, 3, 4, 5, 6]) 3 1, DestWrite 7 []])"
proof -
  have "\<lfloor>of_int (framesIn third [1, 2, 3, 4, 5, 6]) * valof (outRate third)
      / valof (inRate third)\<rfloor> = (0 :: int)"
    by (simp add: framesIn_third third_sel)
  moreover have "Write quiet_env third [] [1, 2, 3, 4, 5, 6] =
     Return ((6, None), third,
       [SoxrProcess (Some 1) (Some [1, 2, 3, 4, 5, 6]) 3 1, DestWrite 7 []])"
    by (simp add: Write_def framesIn_third framesOut_third third_sel quiet_env_sel
        write_out_def GoBytes_def out_len_third_0 C_size_t_def)
  ultimately show ?thesis
    using New_third by (simp add: framesIn_third third_sel)
qed

section \<open>New\<close>

text \<open>
  C7. \<open>New\<close> tests \<open>channels == 0\<close> only. With \<open>channels = -1\<close> it passes the
  validation, calls \<open>soxr_create\<close> with \<open>C.uint(-1) = 4294967295\<close> channels and, when
  the engine reports no error, returns a resampler of \<open>-1\<close> channels.
\<close>

theorem New_negative_channels:
  "New quiet_env [] (Some 7) (Finite False 16000) (Finite False 8000) (- 1) I16 I16 HighQ =
     (Inr (demo\<lparr>channels := - 1\<rparr>),
      [SoxrCreate (Finite False 16000) (Finite False 8000) 4294967295 3 3 4 4])"
  by (simp add: New_def quiet_env_def demo_def sizeOf_def I16_def F64_def F32_def I32_def
      HighQ_def C_uint_def)

text \<open>
  In every environment a negative channel count passes the tests of \<open>New\<close> and
  reaches \<open>soxr_create\<close>, when the other arguments are valid.
\<close>

lemma New_negative_channels_create:
  assumes "chans < 0" and "writer \<noteq> None"
    and "\<not> f64_le_zero inputRate" and "\<not> f64_le_zero outputRate"
    and "0 \<le> quality" and "quality \<le> 6"
    and "sizeOf inFormat = Inr a" and "sizeOf outFormat = Inr b"
  shows "snd (New E tr writer inputRate outputRate chans inFormat outFormat quality) =
     tr @ [SoxrCreate inputRate outputRate (C_uint chans) inFormat outFormat quality
             (threads E)]"
  using assms by (simp add: New_def Let_def split: prod.splits)

text \<open>What the test does reject: zero channels, before any call to the engine.\<close>

lemma New_zero_channels:
  "writer \<noteq> None \<Longrightarrow> \<not> f64_le_zero inputRate \<Longrightarrow> \<not> f64_le_zero outputRate \<Longrightarrow>
   New E tr writer inputRate outputRate 0 inFormat outFormat quality =
     (Inl ''invalid channels number'', tr)"
  by (simp add: New_def)

text \<open>
  C8, as the code has it. \<open>New\<close> tests the quality against the range from 0 to 6:
  with a quality below 0 or above 6 it returns an error of the configuration and
  makes no call to the engine (the error is ``invalid quality setting'' when the
  writer, the rates and the channels pass their tests); and a resampler is returned
  only for a quality from 0 to 6.
\<close>

theorem New_quality_range:
  "(quality < 0 \<or> 6 < quality \<longrightarrow>
      (\<exists>msg. New E tr writer inputRate outputRate chans inFormat outFormat quality =
                (Inl msg, tr) \<and>
              msg \<in> {''io.Writer is nil'', ''invalid input or output sampling rates'',
                      ''invalid channels number'', ''invalid quality setting''}) \<and>
      (writer \<noteq> None \<and> \<not> f64_le_zero inputRate \<and> \<not> f64_le_zero outputRate \<and> chans \<noteq> 0 \<longrightarrow>
         New E tr writer inputRate outputRate chans inFormat outFormat quality =
           (Inl ''invalid quality setting'', tr))) \<and>
   (\<forall>r tr'. New E tr writer inputRate outputRate chans inFormat outFormat quality =
              (Inr r, tr') \<longrightarrow> 0 \<le> quality \<and> quality \<le> 6)"
  by (auto simp: New_def split: if_splits)

theorem New_quality_range_witness:
  "((7::int) < 0 \<or> 6 < (7::int)) \<and>
   New quiet_env [] (Some 7) (Finite False 16000) (Finite False 8000) 2 I16 I16 7 =
     (Inl ''invalid quality setting'', [])"
  using New_quality_range [of 7 quiet_env "[]" "Some 7" "Finite False 16000"
      "Finite False 8000" 2 I16 I16]
  by simp

text \<open>
  C8 as stated fails: 3 is none of the five named quality levels, yet \<open>New\<close> accepts
  it and creates the engine with it.
\<close>

theorem New_quality_counterexample:
  "3 \<notin> {Quick, LowQ, MediumQ, HighQ, VeryHighQ} \<and>
   New quiet_env [] (Some 7) (Finite False 16000) (Finite False 8000) 2 I16 I16 3 =
     (Inr demo, [SoxrCreate (Finite False 16000) (Finite False 8000) 2 3 3 3 4])"
  by (simp add: New_def quiet_env_def demo_def sizeOf_def I16_def F64_def F32_def I32_def
      Quick_def LowQ_def MediumQ_def HighQ_def VeryHighQ_def C_uint_def)

end
